theory Spec2Isabelle
  imports
    Main
    "HOL-Library.Char_ord"
    "HOL-Library.List_Lexorder"
begin

section \<open>Cache (utils/cache.ts)\<close>

text \<open>
  A JavaScript value of a type \<open>T\<close>, or \<open>undefined\<close>. \<open>Cache<T>\<close> stores whatever the
  caller hands to \<open>set\<close>, \<open>undefined\<close> included, and \<open>get\<close> answers \<open>undefined\<close> on a miss.
\<close>

datatype 'v js = Undefined | Val 'v

record 'v CacheEntry =
  entry_value :: "'v js"
  expires :: int

text \<open>
  The cache object: the \<open>Map\<close> from keys to entries and the time-to-live in milliseconds.
  The clock \<open>Date.now()\<close> is an argument of every operation that reads it; times are
  integer milliseconds.
\<close>

record 'v Cache =
  store :: "string \<rightharpoonup> 'v CacheEntry"
  ttl :: int

definition Cache_new :: "int \<Rightarrow> 'v Cache" where
  "Cache_new ttlSeconds = \<lparr>store = Map.empty, ttl = ttlSeconds * 1000\<rparr>"

definition Cache_get :: "int \<Rightarrow> string \<Rightarrow> 'v Cache \<Rightarrow> 'v js \<times> 'v Cache" where
  "Cache_get now k c =
     (case store c k of
        None \<Rightarrow> (Undefined, c)
      | Some entry \<Rightarrow>
          if now > expires entry
          then (Undefined, c\<lparr>store := (store c)(k := None)\<rparr>)
          else (entry_value entry, c))"

definition Cache_set :: "int \<Rightarrow> string \<Rightarrow> 'v js \<Rightarrow> 'v Cache \<Rightarrow> 'v Cache" where
  "Cache_set now k v c =
     c\<lparr>store := (store c)(k \<mapsto> \<lparr>entry_value = v, expires = now + ttl c\<rparr>)\<rparr>"

definition Cache_has :: "int \<Rightarrow> string \<Rightarrow> 'v Cache \<Rightarrow> bool \<times> 'v Cache" where
  "Cache_has now k c = (case Cache_get now k c of (r, c') \<Rightarrow> (r \<noteq> Undefined, c'))"

definition Cache_delete :: "string \<Rightarrow> 'v Cache \<Rightarrow> bool \<times> 'v Cache" where
  "Cache_delete k c = (store c k \<noteq> None, c\<lparr>store := (store c)(k := None)\<rparr>)"

definition Cache_clear :: "'v Cache \<Rightarrow> 'v Cache" where
  "Cache_clear c = c\<lparr>store := Map.empty\<rparr>"

definition Cache_cleanup :: "int \<Rightarrow> 'v Cache \<Rightarrow> 'v Cache" where
  "Cache_cleanup now c =
     c\<lparr>store := (\<lambda>k. case store c k of
                        None \<Rightarrow> None
                      | Some entry \<Rightarrow> if now > expires entry then None else Some entry)\<rparr>"

section \<open>JavaScript values and string helpers\<close>

text \<open>
  A JavaScript number as the backends meet it: an integer, or \<open>NaN\<close> (what \<open>parseInt\<close> yields
  on text that starts with no digit). Numbers supplied by callers and by the configuration
  (\<open>limit\<close>, \<open>start\<close>, \<open>defaultLimit\<close>) are integers throughout; fractions are outside the model.
\<close>

datatype number = NaN | Num int

text \<open>
  JSON data and plain objects. An object is the list of its own properties in insertion
  order; item objects are open (the local backend assigns properties by computed name, the
  remote backend spreads whatever the service sends), so they are objects, not records.
\<close>

datatype json =
    JUndefined
  | JNull
  | JBool bool
  | JNum int
  | JStr string
  | JArr "json list"
  | JObj "(string \<times> json) list"

type_synonym obj = "(string \<times> json) list"

text \<open>\<open>o[k]\<close>: the property's value, \<open>undefined\<close> when the object has none of that name.\<close>

definition obj_get :: "obj \<Rightarrow> string \<Rightarrow> json" where
  "obj_get ob k = (case map_of ob k of None \<Rightarrow> JUndefined | Some v \<Rightarrow> v)"

text \<open>\<open>o[k] = v\<close>: an existing property keeps its place, a new one is appended.\<close>

fun obj_set :: "string \<Rightarrow> json \<Rightarrow> obj \<Rightarrow> obj" where
  "obj_set k v [] = [(k, v)]"
| "obj_set k v ((k', v') # ob) = (if k' = k then (k, v) # ob else (k', v') # obj_set k v ob)"

text \<open>\<open>a || b\<close> on an optional number, as in \<open>filters?.limit || defaultLimit\<close>: \<open>undefined\<close> and
  \<open>0\<close> are falsy.\<close>

definition num_or :: "int option \<Rightarrow> int \<Rightarrow> int" where
  "num_or a b = (case a of None \<Rightarrow> b | Some n \<Rightarrow> if n = 0 then b else n)"

text \<open>\<open>a || b\<close> on an optional string: \<open>undefined\<close> and the empty string are falsy.\<close>

definition str_or :: "string option \<Rightarrow> string \<Rightarrow> string" where
  "str_or a b = (case a of None \<Rightarrow> b | Some s \<Rightarrow> if s = [] then b else s)"

text \<open>Truthiness of an optional string, as in \<open>if (query)\<close>.\<close>

definition truthy :: "string option \<Rightarrow> bool" where
  "truthy a = (case a of None \<Rightarrow> False | Some s \<Rightarrow> s \<noteq> [])"

text \<open>\<open>s.includes(sub)\<close>.\<close>

fun str_includes :: "string \<Rightarrow> string \<Rightarrow> bool" where
  "str_includes [] sub = (sub = [])"
| "str_includes (c # cs) sub = (take (length sub) (c # cs) = sub \<or> str_includes cs sub)"

text \<open>\<open>xs.join(sep)\<close>.\<close>

fun join :: "string \<Rightarrow> string list \<Rightarrow> string" where
  "join sep [] = []"
| "join sep [x] = x"
| "join sep (x # y # ys) = x @ sep @ join sep (y # ys)"

text \<open>\<open>s.split(",")\<close>: the pieces between the separator characters; never an empty list.\<close>

fun split_at :: "char \<Rightarrow> string \<Rightarrow> string list" where
  "split_at sep [] = [[]]"
| "split_at sep (c # cs) =
     (if c = sep then [] # split_at sep cs
      else (case split_at sep cs of
              [] \<Rightarrow> [[c]]
            | p # ps \<Rightarrow> (c # p) # ps))"

text \<open>\<open>s.trim()\<close>, for the ASCII white space (tab, line feed, vertical tab, form feed,
  carriage return, space).\<close>

definition is_space :: "char \<Rightarrow> bool" where
  "is_space c = (c \<in> set [CHR 0x09, CHR 0x0A, CHR 0x0B, CHR 0x0C, CHR 0x0D, CHR 0x20])"

definition trim :: "string \<Rightarrow> string" where
  "trim s = rev (dropWhile is_space (rev (dropWhile is_space s)))"

text \<open>\<open>s.toLowerCase()\<close> on ASCII text (field names; SQLite's \<open>LIKE\<close> folds the same range).\<close>

definition lower_char :: "char \<Rightarrow> char" where
  "lower_char c =
     (case map_of (zip ''ABCDEFGHIJKLMNOPQRSTUVWXYZ'' ''abcdefghijklmnopqrstuvwxyz'') c of
        None \<Rightarrow> c
      | Some l \<Rightarrow> l)"

definition toLowerCase :: "string \<Rightarrow> string" where
  "toLowerCase s = map lower_char s"

text \<open>\<open>String(n)\<close> for an integer: decimal digits, with a minus sign below zero.\<close>

fun digits :: "nat \<Rightarrow> string" where
  "digits n =
     (if n < 10 then [''0123456789'' ! n] else digits (n div 10) @ [''0123456789'' ! (n mod 10)])"

declare digits.simps [simp del]

definition String_of :: "int \<Rightarrow> string" where
  "String_of n = (if n < 0 then CHR ''-'' # digits (nat (- n)) else digits (nat n))"

text \<open>
  \<open>parseInt(s, 10)\<close>: leading white space is skipped, one sign is read, then the longest run
  of decimal digits; \<open>NaN\<close> when that run is empty.
\<close>

definition is_digit :: "char \<Rightarrow> bool" where
  "is_digit c = (c \<in> set ''0123456789'')"

definition digits_value :: "string \<Rightarrow> int" where
  "digits_value ds = foldl (\<lambda>acc c. 10 * acc + (int (of_char c) - 48)) 0 ds"

definition parseInt :: "string \<Rightarrow> number" where
  "parseInt s =
     (let t = dropWhile is_space s;
          neg = (t \<noteq> [] \<and> hd t = CHR ''-'');
          u = (if t \<noteq> [] \<and> (hd t = CHR ''-'' \<or> hd t = CHR ''+'') then tl t else t);
          ds = takeWhile is_digit u
      in if ds = [] then NaN
         else Num (if neg then - digits_value ds else digits_value ds))"

section \<open>Configuration and the shared types (config.ts, backends/types.ts)\<close>

text \<open>The settings the two backends read, and the declared ceiling \<open>maxLimit\<close>.\<close>

record ZoteroConfig =
  apiBaseUrl :: string
  userId :: "string option"
  groupId :: "string option"
  dataDir :: "string option"
  defaultLimit :: int
  maxLimit :: int

text \<open>
  The configuration \<open>loadConfig\<close> builds in an environment that sets none of its variables
  but the user id, on a machine where no data directory is detected: the default limit is
  \<open>parseInt("25", 10)\<close>, and \<open>maxLimit\<close> is the constant 100 whatever the environment holds.
\<close>

definition loadConfig_default :: "string \<Rightarrow> ZoteroConfig" where
  "loadConfig_default uid =
     \<lparr>apiBaseUrl = ''https://api.zotero.org'', userId = Some uid, groupId = None,
      dataDir = None, defaultLimit = 25, maxLimit = 100\<rparr>"

definition getLibraryPrefix :: "ZoteroConfig \<Rightarrow> string" where
  "getLibraryPrefix config =
     (if truthy (groupId config) then ''groups/'' @ the (groupId config)
      else ''users/'' @ (case userId config of None \<Rightarrow> ''undefined'' | Some u \<Rightarrow> u))"

datatype direction = Asc | Desc

record SearchFilters =
  itemType :: "string option"
  tags :: "string list option"
  collectionKey :: "string option"
  sinceVersion :: "int option"
  includeTrashed :: "bool option"
  sort_by :: "string option"
  direction :: "direction option"
  limit :: "int option"
  start :: "int option"

text \<open>The filters object with no property set, \<open>{}\<close>.\<close>

definition no_filters :: SearchFilters where
  "no_filters =
     \<lparr>itemType = None, tags = None, collectionKey = None, sinceVersion = None,
      includeTrashed = None, sort_by = None, direction = None, limit = None, start = None\<rparr>"

text \<open>\<open>filters?.p\<close>: the property of an optional filters object.\<close>

definition opt_field :: "(SearchFilters \<Rightarrow> 'a option) \<Rightarrow> SearchFilters option \<Rightarrow> 'a option" where
  "opt_field p filters = (case filters of None \<Rightarrow> None | Some f \<Rightarrow> p f)"

record SearchResult =
  items :: "obj list"
  totalResults :: number
  hasMore :: bool
  nextStart :: int

text \<open>What a backend call throws, each with its message: an \<open>Error\<close> the code creates, a
  \<open>TypeError\<close> (a property read on \<open>null\<close>, \<open>map\<close> called on something that is no array), or the
  \<open>RangeError\<close> of an exhausted call stack.\<close>

datatype error = Error string | TypeError string | RangeError string

fun message :: "error \<Rightarrow> string" where
  "message (Error m) = m"
| "message (TypeError m) = m"
| "message (RangeError m) = m"

section \<open>The local store (the tables of zotero.sqlite the backend reads)\<close>

text \<open>
  Each table is the list of its rows, in the order a scan of the table yields them. A
  nullable column is an \<open>option\<close>. Only the columns the backend selects or joins on are kept.
\<close>

record item_row =
  itemID :: int
  item_key :: string
  itemTypeID :: int
  item_version :: int
  dateAdded :: string
  dateModified :: string

record collection_row =
  collectionID :: int
  collection_key :: string
  collectionName :: string
  parentCollectionID :: "int option"
  collection_version :: int

record attachment_row =
  att_itemID :: int
  att_parentItemID :: "int option"
  att_contentType :: "string option"
  att_path :: "string option"
  att_linkMode :: int

record annotation_row =
  ann_itemID :: int
  ann_parentItemID :: int
  ann_type :: string
  ann_text :: "string option"
  ann_comment :: "string option"
  ann_color :: "string option"
  ann_pageLabel :: "string option"
  ann_position :: "string option"

record database =
  db_items :: "item_row list"
  db_deletedItems :: "int list" \<comment> \<open>itemID\<close>
  db_itemTypes :: "(int \<times> string) list" \<comment> \<open>itemTypeID, typeName\<close>
  db_fields :: "(int \<times> string) list" \<comment> \<open>fieldID, fieldName\<close>
  db_itemData :: "(int \<times> int \<times> int) list" \<comment> \<open>itemID, fieldID, valueID\<close>
  db_itemDataValues :: "(int \<times> string) list" \<comment> \<open>valueID, value\<close>
  db_creators :: "(int \<times> string option \<times> string option) list" \<comment> \<open>creatorID, firstName, lastName\<close>
  db_itemCreators :: "(int \<times> int \<times> int \<times> int) list" \<comment> \<open>itemID, creatorID, creatorTypeID, orderIndex\<close>
  db_creatorTypes :: "(int \<times> string) list" \<comment> \<open>creatorTypeID, creatorType\<close>
  db_tags :: "(int \<times> string) list" \<comment> \<open>tagID, name\<close>
  db_itemTags :: "(int \<times> int \<times> int) list" \<comment> \<open>itemID, tagID, type\<close>
  db_collections :: "collection_row list"
  db_collectionItems :: "(int \<times> int) list" \<comment> \<open>collectionID, itemID\<close>
  db_deletedCollections :: "int list" \<comment> \<open>collectionID\<close>
  db_itemNotes :: "(int \<times> int option \<times> string) list" \<comment> \<open>itemID, parentItemID, note\<close>
  db_itemAttachments :: "attachment_row list"
  db_itemAnnotations :: "annotation_row list"

text \<open>\<open>statement.get(...)\<close>: the first row of the result, or \<open>undefined\<close>.\<close>

definition first_row :: "'a list \<Rightarrow> 'a option" where
  "first_row rows = (case rows of [] \<Rightarrow> None | r # _ \<Rightarrow> Some r)"

text \<open>
  SQLite's \<open>LIKE\<close> with its defaults: \<open>%\<close> matches any run of characters, \<open>_\<close> any one
  character, and ASCII letters match without regard to case. The pattern comes first.
\<close>

fun like :: "string \<Rightarrow> string \<Rightarrow> bool" where
  "like [] t = (t = [])"
| "like (p # ps) [] = (p = CHR ''%'' \<and> like ps [])"
| "like (p # ps) (c # cs) =
     (if p = CHR ''%'' then like ps (c # cs) \<or> like (p # ps) cs
      else (p = CHR ''_'' \<or> lower_char p = lower_char c) \<and> like ps cs)"

text \<open>\<open>column LIKE ?\<close> on a nullable column: \<open>NULL\<close> matches nothing.\<close>

definition like_null :: "string \<Rightarrow> string option \<Rightarrow> bool" where
  "like_null pat col = (case col of None \<Rightarrow> False | Some t \<Rightarrow> like pat t)"

text \<open>
  \<open>LIMIT ? OFFSET ?\<close>: a negative offset counts as zero, a negative limit as no limit.
\<close>

definition sql_limit_offset :: "int \<Rightarrow> int \<Rightarrow> 'a list \<Rightarrow> 'a list" where
  "sql_limit_offset lim off rows =
     (let r = drop (nat off) rows in if lim < 0 then r else take (nat lim) r)"

text \<open>\<open>ORDER BY column ASC\<close> or \<open>DESC\<close> on a text column, compared byte by byte; rows with
  equal keys keep their order.\<close>

definition order_by :: "('a \<Rightarrow> string) \<Rightarrow> direction \<Rightarrow> 'a list \<Rightarrow> 'a list" where
  "order_by col d rows =
     (case d of Asc \<Rightarrow> sort_key col rows | Desc \<Rightarrow> rev (sort_key col (rev rows)))"

section \<open>The local backend (backends/local.ts)\<close>

text \<open>
  The backend object is its configuration and the opened store. The lookup tables
  \<open>ITEM_TYPES\<close> and \<open>CREATOR_TYPES\<close> are filled by \<open>loadMappings\<close> from the store, a later row of
  an id replacing an earlier one (\<open>FIELD_NAMES\<close> is filled too and never read).
\<close>

definition ITEM_TYPES :: "database \<Rightarrow> int \<rightharpoonup> string" where
  "ITEM_TYPES db = map_of (rev (db_itemTypes db))"

definition CREATOR_TYPES :: "database \<Rightarrow> int \<rightharpoonup> string" where
  "CREATOR_TYPES db = map_of (rev (db_creatorTypes db))"

text \<open>\<open>path.join\<close>, without the normalisation of dots and doubled separators.\<close>

definition path_join :: "string list \<Rightarrow> string" where
  "path_join parts = join ''/'' parts"

definition getStoragePath :: "ZoteroConfig \<Rightarrow> string option" where
  "getStoragePath config =
     (if truthy (dataDir config) then Some (path_join [the (dataDir config), ''storage'']) else None)"

definition rowToItem :: "database \<Rightarrow> item_row \<Rightarrow> obj" where
  "rowToItem db row =
     [(''key'', JStr (item_key row)),
      (''itemType'', JStr (str_or (ITEM_TYPES db (itemTypeID row)) ''unknown'')),
      (''version'', JNum (item_version row)),
      (''dateAdded'', JStr (dateAdded row)),
      (''dateModified'', JStr (dateModified row))]"

definition fieldNameToKey :: "string \<Rightarrow> string" where
  "fieldNameToKey fieldName =
     str_or
       (map_of
          [(''title'', ''title''),
           (''abstractnote'', ''abstractNote''),
           (''date'', ''date''),
           (''url'', ''url''),
           (''accessdate'', ''accessDate''),
           (''language'', ''language''),
           (''publicationtitle'', ''publicationTitle''),
           (''journalabbreviation'', ''journalAbbreviation''),
           (''volume'', ''volume''),
           (''issue'', ''issue''),
           (''pages'', ''pages''),
           (''edition'', ''edition''),
           (''series'', ''series''),
           (''seriesnumber'', ''seriesNumber''),
           (''doi'', ''DOI''),
           (''isbn'', ''ISBN''),
           (''issn'', ''ISSN''),
           (''publisher'', ''publisher''),
           (''place'', ''place''),
           (''institution'', ''institution''),
           (''shorttitle'', ''shortTitle''),
           (''numpages'', ''numPages''),
           (''extra'', ''extra''),
           (''callnumber'', ''callNumber''),
           (''archive'', ''archive''),
           (''archivelocation'', ''archiveLocation''),
           (''librarycatalog'', ''libraryCatalog''),
           (''rights'', ''rights'')]
          (toLowerCase fieldName))
       fieldName"

text \<open>The rows of \<open>itemData JOIN itemDataValues JOIN fields WHERE itemID = ?\<close>.\<close>

definition item_field_rows :: "database \<Rightarrow> int \<Rightarrow> (string \<times> string) list" where
  "item_field_rows db itemId =
     [(fieldName, v).
        (i, fieldID, valueID) \<leftarrow> db_itemData db, i = itemId,
        (valueID', v) \<leftarrow> db_itemDataValues db, valueID' = valueID,
        (fieldID', fieldName) \<leftarrow> db_fields db, fieldID' = fieldID]"

definition loadItemFields :: "database \<Rightarrow> int \<Rightarrow> obj \<Rightarrow> obj" where
  "loadItemFields db itemId item =
     foldl (\<lambda>it (fieldName, v). obj_set (fieldNameToKey fieldName) (JStr v) it)
       item (item_field_rows db itemId)"

text \<open>\<open>s || undefined\<close> on a nullable text column.\<close>

definition or_undefined :: "string option \<Rightarrow> json" where
  "or_undefined s = (if truthy s then JStr (the s) else JUndefined)"

definition loadItemCreators :: "database \<Rightarrow> int \<Rightarrow> json list" where
  "loadItemCreators db itemId =
     map (\<lambda>(orderIndex, creatorTypeID, firstName, lastName).
            JObj [(''creatorType'', JStr (str_or (CREATOR_TYPES db creatorTypeID) ''author'')),
                  (''firstName'', or_undefined firstName),
                  (''lastName'', or_undefined lastName),
                  (''name'', if \<not> truthy firstName \<and> truthy lastName then JStr (the lastName) else JUndefined)])
       (sort_key fst
          [(orderIndex, creatorTypeID, firstName, lastName).
             (i, creatorID, creatorTypeID, orderIndex) \<leftarrow> db_itemCreators db, i = itemId,
             (creatorID', firstName, lastName) \<leftarrow> db_creators db, creatorID' = creatorID])"

definition loadItemTags :: "database \<Rightarrow> int \<Rightarrow> json list" where
  "loadItemTags db itemId =
     [JObj [(''tag'', JStr name), (''type'', JNum ty)].
        (i, tagID, ty) \<leftarrow> db_itemTags db, i = itemId,
        (tagID', name) \<leftarrow> db_tags db, tagID' = tagID]"

definition loadItemCollections :: "database \<Rightarrow> int \<Rightarrow> json list" where
  "loadItemCollections db itemId =
     [JStr (collection_key c).
        (collectionID', i) \<leftarrow> db_collectionItems db, i = itemId,
        c \<leftarrow> db_collections db, collectionID c = collectionID']"

subsection \<open>searchItems\<close>

text \<open>
  \<open>searchItems\<close> assembles one SQL statement from its arguments. Each clause it can append is
  a definition here, and \<open>search_where\<close> is the conjunction the assembled \<open>WHERE\<close> states.
\<close>

text \<open>\<open>SELECT itemTypeID FROM itemTypes WHERE typeName IN (...)\<close>.\<close>

definition type_ids_named :: "database \<Rightarrow> string list \<Rightarrow> int list" where
  "type_ids_named db names = [tid. (tid, typeName) \<leftarrow> db_itemTypes db, typeName \<in> set names]"

text \<open>The text search: item ids with a data value, or a creator's first or last name,
  \<open>LIKE\<close> the search term.\<close>

definition text_match_ids :: "database \<Rightarrow> string \<Rightarrow> int list" where
  "text_match_ids db searchTerm =
     [i. (i, fid, vid) \<leftarrow> db_itemData db,
         (vid', v) \<leftarrow> db_itemDataValues db, vid' = vid, like searchTerm v]
     @ [i. (i, cid, ctid, ord) \<leftarrow> db_itemCreators db,
           (cid', firstName, lastName) \<leftarrow> db_creators db, cid' = cid,
           like_null searchTerm firstName \<or> like_null searchTerm lastName]"

text \<open>\<open>SELECT it.itemID FROM itemTags it JOIN tags t ON it.tagID = t.tagID WHERE t.name = ?\<close>.\<close>

definition tag_item_ids :: "database \<Rightarrow> string \<Rightarrow> int list" where
  "tag_item_ids db t =
     [i. (i, tid, ty) \<leftarrow> db_itemTags db, (tid', name) \<leftarrow> db_tags db, tid' = tid, name = t]"

text \<open>\<open>SELECT ci.itemID FROM collectionItems ci JOIN collections c ON ... WHERE c.key = ?\<close>.\<close>

definition collection_item_ids :: "database \<Rightarrow> string \<Rightarrow> int list" where
  "collection_item_ids db k =
     [i. (cid, i) \<leftarrow> db_collectionItems db,
         c \<leftarrow> db_collections db, collectionID c = cid, collection_key c = k]"

definition search_where :: "database \<Rightarrow> string option \<Rightarrow> SearchFilters option \<Rightarrow> item_row \<Rightarrow> bool" where
  "search_where db query filters i =
     (itemID i \<notin> set (db_deletedItems db)
      \<and> itemTypeID i \<notin> set (type_ids_named db [''attachment'', ''note'', ''annotation''])
      \<and> (if truthy query
          then itemID i \<in> set (text_match_ids db (''%'' @ the query @ ''%''))
          else True)
      \<and> (if truthy (opt_field itemType filters)
          then itemTypeID i \<in> set (type_ids_named db
                 (map trim (split_at CHR '','' (the (opt_field itemType filters)))))
          else True)
      \<and> (case opt_field tags filters of
            None \<Rightarrow> True
          | Some ts \<Rightarrow>
              if length ts > 0 then list_all (\<lambda>t. itemID i \<in> set (tag_item_ids db t)) ts
              else True)
      \<and> (if truthy (opt_field collectionKey filters)
          then itemID i \<in> set (collection_item_ids db (the (opt_field collectionKey filters)))
          else True))"

text \<open>The body of the loop over the selected rows: the item object of one row.\<close>

definition load_item :: "database \<Rightarrow> item_row \<Rightarrow> obj" where
  "load_item db row =
     obj_set ''collections'' (JArr (loadItemCollections db (itemID row)))
       (obj_set ''tags'' (JArr (loadItemTags db (itemID row)))
          (obj_set ''creators'' (JArr (loadItemCreators db (itemID row)))
             (loadItemFields db (itemID row) (rowToItem db row))))"

definition LocalBackend_searchItems ::
  "ZoteroConfig \<Rightarrow> database \<Rightarrow> string option \<Rightarrow> SearchFilters option \<Rightarrow> SearchResult" where
  "LocalBackend_searchItems config db query filters =
     (let lim = num_or (opt_field limit filters) (defaultLimit config);
          offset = num_or (opt_field start filters) 0;
          sortField = str_or (opt_field sort_by filters) ''dateModified'';
          dir = (case opt_field direction filters of None \<Rightarrow> Desc | Some d \<Rightarrow> d);
          matching = filter (search_where db query filters) (db_items db);
          total = int (length (remdups (map itemID matching)));
          rows = sql_limit_offset lim offset
                   (order_by (if sortField = ''dateModified'' then dateModified else dateAdded) dir
                      (remdups matching));
          its = map (load_item db) rows
      in \<lparr>items = its,
          totalResults = Num total,
          hasMore = (offset + int (length its) < total),
          nextStart = offset + int (length its)\<rparr>)"

subsection \<open>Children of an item\<close>

definition getItemNotes :: "database \<Rightarrow> string \<Rightarrow> obj list" where
  "getItemNotes db k =
     (case first_row [i \<leftarrow> db_items db. item_key i = k] of
        None \<Rightarrow> []
      | Some item \<Rightarrow>
          [[(''key'', JStr (item_key i)),
            (''itemType'', JStr ''note''),
            (''note'', JStr note),
            (''parentItem'', JStr k),
            (''dateAdded'', JStr (dateAdded i)),
            (''dateModified'', JStr (dateModified i))].
             (nid, parent, note) \<leftarrow> db_itemNotes db,
             i \<leftarrow> db_items db, itemID i = nid,
             parent = Some (itemID item) \<and> itemID i \<notin> set (db_deletedItems db)])"

text \<open>\<open>a.path?.replace(/^storage:/, "") || undefined\<close>.\<close>

definition attachment_filename :: "string option \<Rightarrow> string option" where
  "attachment_filename p =
     (case p of
        None \<Rightarrow> None
      | Some s \<Rightarrow>
          (let f = (if take 8 s = ''storage:'' then drop 8 s else s)
           in if f = [] then None else Some f))"

definition attachment_title_row :: "database \<Rightarrow> string \<Rightarrow> string option" where
  "attachment_title_row db k =
     first_row
       [v. i \<leftarrow> db_items db, item_key i = k,
           (iid, fid, vid) \<leftarrow> db_itemData db, iid = itemID i,
           (vid', v) \<leftarrow> db_itemDataValues db, vid' = vid,
           (fid', fieldName) \<leftarrow> db_fields db, fid' = fid, fieldName = ''title'']"

definition linkModes :: "string list" where
  "linkModes = [''imported_file'', ''imported_url'', ''linked_file'', ''linked_url'']"

definition getItemAttachments :: "ZoteroConfig \<Rightarrow> database \<Rightarrow> string \<Rightarrow> obj list" where
  "getItemAttachments config db k =
     (case first_row [i \<leftarrow> db_items db. item_key i = k] of
        None \<Rightarrow> []
      | Some item \<Rightarrow>
          map (\<lambda>(akey, a).
                 (let filename = attachment_filename (att_path a) in
                  [(''key'', JStr akey),
                   (''title'', JStr (str_or (attachment_title_row db akey) (str_or filename akey))),
                   (''itemType'', JStr ''attachment''),
                   (''linkMode'',
                      JStr (str_or (if 0 \<le> att_linkMode a \<and> att_linkMode a < 4
                                    then Some (linkModes ! nat (att_linkMode a)) else None)
                              ''imported_file'')),
                   (''contentType'', or_undefined (att_contentType a)),
                   (''filename'', or_undefined filename),
                   (''path'',
                      if truthy (getStoragePath config) \<and> truthy filename
                      then JStr (path_join [the (getStoragePath config), akey, the filename])
                      else JUndefined),
                   (''parentItem'', JStr k)]))
            [(item_key i, a).
               a \<leftarrow> db_itemAttachments db,
               i \<leftarrow> db_items db, itemID i = att_itemID a,
               att_parentItemID a = Some (itemID item) \<and> itemID i \<notin> set (db_deletedItems db)])"

definition annotations_of_attachment :: "database \<Rightarrow> obj \<Rightarrow> obj list" where
  "annotations_of_attachment db attachment =
     (if obj_get attachment ''contentType'' = JStr ''application/pdf''
      then (case obj_get attachment ''key'' of
              JStr akey \<Rightarrow>
                (case first_row [i \<leftarrow> db_items db. item_key i = akey] of
                   None \<Rightarrow> []
                 | Some attachmentItem \<Rightarrow>
                     [[(''key'', JStr (item_key i)),
                       (''itemType'', JStr ''annotation''),
                       (''annotationType'', JStr (ann_type r)),
                       (''annotationText'', or_undefined (ann_text r)),
                       (''annotationComment'', or_undefined (ann_comment r)),
                       (''annotationColor'', or_undefined (ann_color r)),
                       (''annotationPageLabel'', or_undefined (ann_pageLabel r)),
                       (''annotationPosition'', or_undefined (ann_position r)),
                       (''parentItem'', JStr akey),
                       (''dateAdded'', JStr (dateAdded i)),
                       (''dateModified'', JStr (dateModified i))].
                        r \<leftarrow> db_itemAnnotations db,
                        i \<leftarrow> db_items db, itemID i = ann_itemID r,
                        ann_parentItemID r = itemID attachmentItem
                        \<and> itemID i \<notin> set (db_deletedItems db)])
            | _ \<Rightarrow> [])
      else [])"

definition getItemAnnotations :: "ZoteroConfig \<Rightarrow> database \<Rightarrow> string \<Rightarrow> obj list" where
  "getItemAnnotations config db k =
     concat (map (annotations_of_attachment db) (getItemAttachments config db k))"

subsection \<open>getItem\<close>

text \<open>\<open>null\<close> is \<open>None\<close>. The row is looked up with the anti-join against \<open>deletedItems\<close>; the
  children are loaded only once a row was found.\<close>

definition LocalBackend_getItem ::
  "ZoteroConfig \<Rightarrow> database \<Rightarrow> string \<Rightarrow> bool \<Rightarrow> obj option" where
  "LocalBackend_getItem config db k includeChildren =
     (case first_row [i \<leftarrow> db_items db. item_key i = k \<and> itemID i \<notin> set (db_deletedItems db)] of
        None \<Rightarrow> None
      | Some row \<Rightarrow>
          (let item = load_item db row in
           Some (if includeChildren
                 then obj_set ''annotations'' (JArr (map JObj (getItemAnnotations config db k)))
                        (obj_set ''notes'' (JArr (map JObj (getItemNotes db k)))
                           (obj_set ''attachments'' (JArr (map JObj (getItemAttachments config db k)))
                              item))
                 else item)))"

subsection \<open>getCollectionItems\<close>

text \<open>The keys of the collections whose parent has the given key.\<close>

definition subcollection_keys :: "database \<Rightarrow> string \<Rightarrow> string list" where
  "subcollection_keys db parentKey =
     [collection_key c.
        c \<leftarrow> db_collections db,
        pc \<leftarrow> db_collections db, parentCollectionID c = Some (collectionID pc),
        collection_key pc = parentKey]"

text \<open>
  The closure \<open>getSubcollections\<close> pushes every sub-collection of its argument and calls
  itself on it. The first argument is the call depth still available: a walk that nests
  deeper (on a parent chain that closes into a cycle, every walk does) ends with \<open>None\<close>, the
  exhausted call stack. \<open>sub_loop\<close> is the \<open>for\<close> loop over the rows of one call.
\<close>

fun getSubcollections :: "nat \<Rightarrow> database \<Rightarrow> string \<Rightarrow> string list \<Rightarrow> string list option"
  and sub_loop :: "nat \<Rightarrow> database \<Rightarrow> string list \<Rightarrow> string list \<Rightarrow> string list option" where
  "getSubcollections 0 db parentKey allKeys = None"
| "getSubcollections (Suc depth) db parentKey allKeys =
     sub_loop depth db (subcollection_keys db parentKey) allKeys"
| "sub_loop depth db [] allKeys = Some allKeys"
| "sub_loop depth db (sub # subs) allKeys =
     (case getSubcollections depth db sub (allKeys @ [sub]) of
        None \<Rightarrow> None
      | Some allKeys' \<Rightarrow> sub_loop depth db subs allKeys')"

definition LocalBackend_getCollectionItems ::
  "nat \<Rightarrow> ZoteroConfig \<Rightarrow> database \<Rightarrow> string \<Rightarrow> bool \<Rightarrow> SearchFilters option
     \<Rightarrow> error + SearchResult" where
  "LocalBackend_getCollectionItems depth config db collectionKey' recursive filters =
     (let updatedFilters =
            (case filters of None \<Rightarrow> no_filters | Some f \<Rightarrow> f)\<lparr>collectionKey := Some collectionKey'\<rparr>
      in if recursive
         then (case getSubcollections depth db collectionKey' [collectionKey'] of
                 None \<Rightarrow> Inl (RangeError ''Maximum call stack size exceeded'')
               | Some allKeys \<Rightarrow> Inr (LocalBackend_searchItems config db None (Some updatedFilters)))
         else Inr (LocalBackend_searchItems config db None (Some updatedFilters)))"

subsection \<open>getBibliography\<close>

definition LocalBackend_getBibliography :: "string list \<Rightarrow> string option \<Rightarrow> error + string" where
  "LocalBackend_getBibliography keys style =
     Inr ''Bibliography generation requires Web API mode or citeproc-js integration.''"

section \<open>The remote backend (backends/web-api.ts)\<close>

text \<open>
  The service behind \<open>fetch\<close> is a function from requests to responses. A request is the
  endpoint below the base address: its path, and the query as the list of pairs that
  \<open>URLSearchParams\<close> serialises (the percent-encoding is not modelled). The body of a response
  is the JSON value \<open>response.json()\<close> parses; transport failures and bodies that are no JSON
  are outside the model.
\<close>

record Request =
  path :: string
  query_params :: "(string \<times> string) list"

record Response =
  status :: int
  statusText :: string
  headers :: "(string \<times> string) list"
  body :: json

type_synonym service = "Request \<Rightarrow> Response"

text \<open>\<open>headers.get(name)\<close>: header names match without regard to case.\<close>

definition headers_get :: "Response \<Rightarrow> string \<Rightarrow> string option" where
  "headers_get response name =
     map_of (map (\<lambda>(k, v). (toLowerCase k, v)) (headers response)) (toLowerCase name)"

definition request :: "service \<Rightarrow> Request \<Rightarrow> error + Response" where
  "request svc endpoint =
     (let response = svc endpoint in
      if \<not> (200 \<le> status response \<and> status response \<le> 299)
      then (if status response = 429
            then Inl (Error (''Rate limited. Retry after ''
                             @ str_or (headers_get response ''Retry-After'') ''5''
                             @ '' seconds.''))
            else Inl (Error (''API request failed: '' @ String_of (status response)
                             @ '' '' @ statusText response)))
      else Inr response)"

text \<open>A parameter value: a string, a number, a boolean, or \<open>undefined\<close>.\<close>

datatype param = PStr string | PNum int | PBool bool | PUndefined

fun String_of_param :: "param \<Rightarrow> string" where
  "String_of_param (PStr s) = s"
| "String_of_param (PNum n) = String_of n"
| "String_of_param (PBool b) = (if b then ''true'' else ''false'')"
| "String_of_param PUndefined = ''undefined''"

definition buildQueryString :: "(string \<times> param) list \<Rightarrow> (string \<times> string) list" where
  "buildQueryString params =
     [(k, String_of_param v). (k, v) \<leftarrow> params, v \<noteq> PUndefined \<and> v \<noteq> PStr []]"

text \<open>
  \<open>{key: apiItem.key, version: apiItem.version, ...apiItem.data}\<close>. Reading a property of
  \<open>null\<close> throws; \<open>data\<close> that is no object contributes nothing.
\<close>

definition mapApiItem :: "json \<Rightarrow> error + obj" where
  "mapApiItem apiItem =
     (case apiItem of
        JObj ob \<Rightarrow>
          Inr (foldl (\<lambda>it (k, v). obj_set k v it)
                 [(''key'', obj_get ob ''key''), (''version'', obj_get ob ''version'')]
                 (case obj_get ob ''data'' of JObj d \<Rightarrow> d | _ \<Rightarrow> []))
      | JNull \<Rightarrow> Inl (TypeError ''Cannot read properties of null'')
      | JUndefined \<Rightarrow> Inl (TypeError ''Cannot read properties of undefined'')
      | _ \<Rightarrow> Inr [(''key'', JUndefined), (''version'', JUndefined)])"

text \<open>\<open>data.map(mapApiItem)\<close>: the first element that throws ends the call.\<close>

fun map_items :: "json list \<Rightarrow> error + obj list" where
  "map_items [] = Inr []"
| "map_items (x # xs) =
     (case mapApiItem x of
        Inl e \<Rightarrow> Inl e
      | Inr it \<Rightarrow> (case map_items xs of Inl e \<Rightarrow> Inl e | Inr its \<Rightarrow> Inr (it # its)))"

definition map_body :: "json \<Rightarrow> error + obj list" where
  "map_body data =
     (case data of
        JArr xs \<Rightarrow> map_items xs
      | _ \<Rightarrow> Inl (TypeError ''data.map is not a function''))"

text \<open>The text \<open>rel="next"\<close>.\<close>

definition rel_next :: string where
  "rel_next = ''rel='' @ [CHR 0x22] @ ''next'' @ [CHR 0x22]"

definition fetchItemsWithTotal :: "service \<Rightarrow> Request \<Rightarrow> error + SearchResult" where
  "fetchItemsWithTotal svc endpoint =
     (case request svc endpoint of
        Inl e \<Rightarrow> Inl e
      | Inr response \<Rightarrow>
          (let total = parseInt (str_or (headers_get response ''Total-Results'') ''0'') in
           case map_body (body response) of
             Inl e \<Rightarrow> Inl e
           | Inr its \<Rightarrow>
               (let linkHeader = str_or (headers_get response ''Link'') [] in
                Inr \<lparr>items = its,
                     totalResults = total,
                     hasMore = str_includes linkHeader rel_next,
                     nextStart = int (length its)\<rparr>)))"

text \<open>The five parameters both \<open>searchItems\<close> and \<open>getCollectionItems\<close> start from.\<close>

definition base_params :: "ZoteroConfig \<Rightarrow> SearchFilters option \<Rightarrow> (string \<times> param) list" where
  "base_params config filters =
     [(''format'', PStr ''json''),
      (''limit'', PNum (num_or (opt_field limit filters) (defaultLimit config))),
      (''start'', PNum (num_or (opt_field start filters) 0)),
      (''sort'', PStr (str_or (opt_field sort_by filters) ''dateModified'')),
      (''direction'',
         PStr (case opt_field direction filters of
                 None \<Rightarrow> ''desc'' | Some Asc \<Rightarrow> ''asc'' | Some Desc \<Rightarrow> ''desc''))]"

text \<open>The endpoint \<open>searchItems\<close> builds before it calls \<open>fetchItemsWithTotal\<close>.\<close>

definition searchItems_endpoint ::
  "ZoteroConfig \<Rightarrow> string option \<Rightarrow> SearchFilters option \<Rightarrow> Request" where
  "searchItems_endpoint config query filters =
     (let params =
            base_params config filters
            @ (if truthy query then [(''q'', PStr (the query)), (''qmode'', PStr ''everything'')]
               else [])
            @ (if truthy (opt_field itemType filters)
               then [(''itemType'', PStr (the (opt_field itemType filters)))] else [])
            @ (case opt_field tags filters of
                 None \<Rightarrow> []
               | Some ts \<Rightarrow> if length ts > 0 then [(''tag'', PStr (join '' || '' ts))] else [])
      in if truthy (opt_field collectionKey filters)
         then \<lparr>path = ''/'' @ getLibraryPrefix config @ ''/collections/''
                      @ the (opt_field collectionKey filters) @ ''/items'',
               query_params = buildQueryString params\<rparr>
         else \<lparr>path = ''/'' @ getLibraryPrefix config @ ''/items/top'',
               query_params =
                 buildQueryString
                   (params @ (case opt_field sinceVersion filters of
                                None \<Rightarrow> []
                              | Some v \<Rightarrow> [(''since'', PNum v)]))\<rparr>)"

definition WebAPIBackend_searchItems ::
  "ZoteroConfig \<Rightarrow> service \<Rightarrow> string option \<Rightarrow> SearchFilters option \<Rightarrow> error + SearchResult" where
  "WebAPIBackend_searchItems config svc query filters =
     fetchItemsWithTotal svc (searchItems_endpoint config query filters)"

definition WebAPIBackend_getCollectionItems ::
  "ZoteroConfig \<Rightarrow> service \<Rightarrow> string \<Rightarrow> bool \<Rightarrow> SearchFilters option \<Rightarrow> error + SearchResult" where
  "WebAPIBackend_getCollectionItems config svc collectionKey' recursive filters =
     fetchItemsWithTotal svc
       \<lparr>path = ''/'' @ getLibraryPrefix config @ ''/collections/'' @ collectionKey'
                @ (if recursive then ''/items'' else ''/items/top''),
        query_params = buildQueryString (base_params config filters)\<rparr>"

text \<open>\<open>children.filter((c) => c.itemType === ty)\<close>.\<close>

definition children_of_type :: "string \<Rightarrow> obj list \<Rightarrow> json" where
  "children_of_type ty children =
     JArr (map JObj (filter (\<lambda>c. obj_get c ''itemType'' = JStr ty) children))"

text \<open>The body of the \<open>try\<close> block of \<open>getItem\<close>.\<close>

definition getItem_try :: "ZoteroConfig \<Rightarrow> service \<Rightarrow> string \<Rightarrow> bool \<Rightarrow> error + obj" where
  "getItem_try config svc k includeChildren =
     (case request svc \<lparr>path = ''/'' @ getLibraryPrefix config @ ''/items/'' @ k,
                        query_params = []\<rparr> of
        Inl e \<Rightarrow> Inl e
      | Inr response \<Rightarrow>
          (case mapApiItem (body response) of
             Inl e \<Rightarrow> Inl e
           | Inr item \<Rightarrow>
               if includeChildren
               then (case request svc \<lparr>path = ''/'' @ getLibraryPrefix config @ ''/items/'' @ k
                                               @ ''/children'',
                                        query_params = []\<rparr> of
                       Inl e \<Rightarrow> Inl e
                     | Inr response' \<Rightarrow>
                         (case map_body (body response') of
                            Inl e \<Rightarrow> Inl e
                          | Inr children \<Rightarrow>
                              Inr (obj_set ''annotations'' (children_of_type ''annotation'' children)
                                     (obj_set ''notes'' (children_of_type ''note'' children)
                                        (obj_set ''attachments''
                                           (children_of_type ''attachment'' children) item)))))
               else Inr item))"

text \<open>\<open>getItem\<close>: the \<open>catch\<close> turns an error whose message includes \<open>404\<close> into \<open>null\<close> and throws
  every other error again.\<close>

definition WebAPIBackend_getItem ::
  "ZoteroConfig \<Rightarrow> service \<Rightarrow> string \<Rightarrow> bool \<Rightarrow> error + obj option" where
  "WebAPIBackend_getItem config svc k includeChildren =
     (case getItem_try config svc k includeChildren of
        Inr item \<Rightarrow> Inr (Some item)
      | Inl e \<Rightarrow> if str_includes (message e) ''404'' then Inr None else Inl e)"

section \<open>An example library and example service answers\<close>

text \<open>
  A small store: the article \<open>ABC123\<close> (tags \<open>methodology\<close> and \<open>survey\<close>) in the collection \<open>COL1\<close>, the
  book \<open>DEF456\<close> (tag \<open>methodology\<close> only) in \<open>COL2\<close>, a sub-collection of \<open>COL1\<close>, the article
  \<open>GHI789\<close>, which is in the trash, and the PDF attachment \<open>ATT001\<close> of \<open>ABC123\<close>.
\<close>

definition example_config :: ZoteroConfig where
  "example_config = loadConfig_default ''12345''"

definition example_library :: database where
  "example_library =
     \<lparr>db_items =
        [\<lparr>itemID = 1, item_key = ''ABC123'', itemTypeID = 1, item_version = 10,
          dateAdded = ''2024-01-01 10:00:00'', dateModified = ''2024-01-05 10:00:00''\<rparr>,
         \<lparr>itemID = 2, item_key = ''DEF456'', itemTypeID = 2, item_version = 11,
          dateAdded = ''2024-01-02 10:00:00'', dateModified = ''2024-02-01 10:00:00''\<rparr>,
         \<lparr>itemID = 3, item_key = ''GHI789'', itemTypeID = 1, item_version = 12,
          dateAdded = ''2024-01-03 10:00:00'', dateModified = ''2024-03-01 10:00:00''\<rparr>,
         \<lparr>itemID = 4, item_key = ''ATT001'', itemTypeID = 3, item_version = 13,
          dateAdded = ''2024-01-04 10:00:00'', dateModified = ''2024-01-04 10:00:00''\<rparr>],
      db_deletedItems = [3],
      db_itemTypes = [(1, ''journalArticle''), (2, ''book''), (3, ''attachment''),
                      (4, ''note''), (5, ''annotation'')],
      db_fields = [(1, ''title''), (2, ''abstractNote'')],
      db_itemData = [(1, 1, 1), (2, 1, 2), (3, 1, 3)],
      db_itemDataValues = [(1, ''Deep Learning''), (2, ''A Book''), (3, ''Old Draft'')],
      db_creators = [(1, Some ''Ada'', Some ''Lovelace'')],
      db_itemCreators = [(1, 1, 1, 0)],
      db_creatorTypes = [(1, ''author'')],
      db_tags = [(1, ''methodology''), (2, ''survey'')],
      db_itemTags = [(1, 1, 0), (1, 2, 0), (2, 1, 0), (3, 1, 0)],
      db_collections =
        [\<lparr>collectionID = 1, collection_key = ''COL1'', collectionName = ''Papers'',
          parentCollectionID = None, collection_version = 1\<rparr>,
         \<lparr>collectionID = 2, collection_key = ''COL2'', collectionName = ''Books'',
          parentCollectionID = Some 1, collection_version = 1\<rparr>],
      db_collectionItems = [(1, 1), (2, 2), (1, 3)],
      db_deletedCollections = [],
      db_itemNotes = [],
      db_itemAttachments =
        [\<lparr>att_itemID = 4, att_parentItemID = Some 1, att_contentType = Some ''application/pdf'',
          att_path = Some ''storage:paper.pdf'', att_linkMode = 0\<rparr>],
      db_itemAnnotations = []\<rparr>"

text \<open>Items as the remote service sends them: the three top-level items of the example
  store, and two further ones.\<close>

definition api_item :: "string \<Rightarrow> int \<Rightarrow> string \<Rightarrow> string list \<Rightarrow> (string \<times> json) list \<Rightarrow> json" where
  "api_item k v ty ts extra =
     JObj [(''key'', JStr k), (''version'', JNum v),
           (''data'', JObj ([(''key'', JStr k), (''version'', JNum v), (''itemType'', JStr ty),
                            (''tags'', JArr (map (\<lambda>t. JObj [(''tag'', JStr t)]) ts))] @ extra))]"

definition api_ABC123 :: json where
  "api_ABC123 = api_item ''ABC123'' 10 ''journalArticle'' [''methodology'', ''survey''] []"

definition api_DEF456 :: json where
  "api_DEF456 = api_item ''DEF456'' 11 ''book'' [''methodology''] []"

definition api_GHI789 :: json where
  "api_GHI789 = api_item ''GHI789'' 12 ''journalArticle'' [''methodology''] [(''deleted'', JNum 1)]"

definition api_JKL012 :: json where
  "api_JKL012 = api_item ''JKL012'' 14 ''thesis'' [] []"

definition api_MNO345 :: json where
  "api_MNO345 = api_item ''MNO345'' 15 ''book'' [] []"

text \<open>
  Answers of the kind the Zotero Web API gives, as far as the examples need them:
  \<^item> a search whose \<open>tag\<close> parameter is \<open>methodology || survey\<close> (the service's syntax for
    \<open>methodology\<close> or \<open>survey\<close>) yields both live items;
  \<^item> a search from \<open>start=2\<close> with \<open>limit=2\<close> in a library of five matches yields the page
    of the third and fourth item, the total 5 and a link to the next page;
  \<^item> the item \<open>GHI789\<close>, which is in the trash, is served with its \<open>deleted\<close> marker set, and it
    has no children;
  \<^item> the item \<open>BUSY01\<close> is answered with 429 and \<open>Retry-After: 404\<close>, the item \<open>DOWN01\<close> with 500;
  \<^item> every other request is answered with 404.
\<close>

definition example_service :: service where
  "example_service rq =
     (if path rq = ''/users/12345/items/top''
         \<and> map_of (query_params rq) ''tag'' = Some ''methodology || survey''
      then \<lparr>status = 200, statusText = ''OK'', headers = [(''Total-Results'', ''2'')],
            body = JArr [api_ABC123, api_DEF456]\<rparr>
      else if path rq = ''/users/12345/items/top''
         \<and> map_of (query_params rq) ''start'' = Some ''2''
         \<and> map_of (query_params rq) ''limit'' = Some ''2''
      then \<lparr>status = 200, statusText = ''OK'',
            headers = [(''Total-Results'', ''5''),
                       (''Link'', ''<https://api.zotero.org/users/12345/items/top?start=4>; ''
                                  @ rel_next)],
            body = JArr [api_JKL012, api_MNO345]\<rparr>
      else if path rq = ''/users/12345/items/GHI789''
      then \<lparr>status = 200, statusText = ''OK'', headers = [], body = api_GHI789\<rparr>
      else if path rq = ''/users/12345/items/GHI789/children''
      then \<lparr>status = 200, statusText = ''OK'', headers = [], body = JArr []\<rparr>
      else if path rq = ''/users/12345/items/BUSY01''
      then \<lparr>status = 429, statusText = ''Too Many Requests'',
            headers = [(''Retry-After'', ''404'')], body = JNull\<rparr>
      else if path rq = ''/users/12345/items/DOWN01''
      then \<lparr>status = 500, statusText = ''Internal Server Error'', headers = [], body = JNull\<rparr>
      else \<lparr>status = 404, statusText = ''Not Found'', headers = [], body = JNull\<rparr>)"

section \<open>Definitions used to state the properties\<close>

text \<open>An item carries the tag \<open>t\<close>: its \<open>tags\<close> array has an entry whose \<open>tag\<close> is \<open>t\<close>.\<close>

definition item_carries_tag :: "obj \<Rightarrow> string \<Rightarrow> bool" where
  "item_carries_tag it t =
     (case obj_get it ''tags'' of
        JArr ts \<Rightarrow> list_ex (\<lambda>x. case x of JObj ob \<Rightarrow> obj_get ob ''tag'' = JStr t | _ \<Rightarrow> False) ts
      | _ \<Rightarrow> False)"

text \<open>The keys of the items of a result.\<close>

definition item_keys :: "SearchResult \<Rightarrow> json list" where
  "item_keys r = map (\<lambda>it. obj_get it ''key'') (items r)"

text \<open>A store of \<open>n\<close> journal articles and nothing else.\<close>

definition big_library :: "nat \<Rightarrow> database" where
  "big_library n =
     \<lparr>db_items =
        map (\<lambda>i. \<lparr>itemID = int i, item_key = ''ITEM'' @ digits i, itemTypeID = 1, item_version = 1,
                   dateAdded = ''2024-01-01 00:00:00'', dateModified = ''2024-01-01 00:00:00''\<rparr>)
          [0..<n],
      db_deletedItems = [],
      db_itemTypes = [(1, ''journalArticle''), (3, ''attachment''), (4, ''note''), (5, ''annotation'')],
      db_fields = [],
      db_itemData = [],
      db_itemDataValues = [],
      db_creators = [],
      db_itemCreators = [],
      db_creatorTypes = [],
      db_tags = [],
      db_itemTags = [],
      db_collections = [],
      db_collectionItems = [],
      db_deletedCollections = [],
      db_itemNotes = [],
      db_itemAttachments = [],
      db_itemAnnotations = []\<rparr>"

section \<open>Lemmas on the helpers\<close>

lemma opt_field_Some: "opt_field p (Some f) = p f"
  by (simp add: opt_field_def)

lemma num_or_simps: "num_or None b = b" "num_or (Some 0) b = b"
  by (simp_all add: num_or_def)

lemma num_or_same: "num_or (Some b) b = b"
  by (simp add: num_or_def)

lemma map_of_obj_set: "map_of (obj_set k v ob) = (map_of ob)(k \<mapsto> v)"
  by (induction ob) (auto simp: fun_upd_twist)

lemma obj_get_obj_set: "obj_get (obj_set k v ob) k' = (if k' = k then v else obj_get ob k')"
  by (simp add: obj_get_def map_of_obj_set)

lemma str_includes_append: "str_includes s sub \<Longrightarrow> str_includes (p @ s) sub"
  by (induction p) auto

lemma str_includes_prefix: "str_includes (sub @ s) sub"
proof (cases "sub @ s")
  case Nil
  then show ?thesis by simp
next
  case (Cons c cs)
  have "take (length sub) (sub @ s) = sub" by simp
  then have "take (length sub) (c # cs) = sub" by (simp only: Cons)
  then have "str_includes (c # cs) sub" by simp
  then show ?thesis by (simp only: Cons)
qed

lemma String_of_404: "String_of 404 = ''404''"
  by code_simp

lemma set_sql_limit_offset: "set (sql_limit_offset lim off rows) \<subseteq> set rows"
  by (auto simp: sql_limit_offset_def Let_def dest: in_set_takeD in_set_dropD)

lemma set_order_by: "set (order_by col d rows) = set rows"
  by (cases d) (simp_all add: order_by_def)

lemma length_order_by: "length (order_by col d rows) = length rows"
  by (cases d) (simp_all add: order_by_def)

lemma in_page:
  assumes "row \<in> set (sql_limit_offset lim off (order_by col d (remdups (filter P rows))))"
  shows "row \<in> set rows \<and> P row"
proof -
  from assms have "row \<in> set (order_by col d (remdups (filter P rows)))"
    by (rule subsetD [OF set_sql_limit_offset])
  then show ?thesis by (simp add: set_order_by)
qed

section \<open>Lemmas on the local backend\<close>

lemma load_item_tags: "obj_get (load_item db row) ''tags'' = JArr (loadItemTags db (itemID row))"
  by (simp add: load_item_def obj_get_obj_set)

lemma tag_item_ids_loadItemTags:
  assumes "i \<in> set (tag_item_ids db t)"
  shows "\<exists>ty. JObj [(''tag'', JStr t), (''type'', JNum ty)] \<in> set (loadItemTags db i)"
  using assms by (auto simp: tag_item_ids_def loadItemTags_def)

text \<open>The page \<open>searchItems\<close> returns, spelled out.\<close>

lemma searchItems_items:
  "items (LocalBackend_searchItems config db query filters)
   = map (load_item db)
       (sql_limit_offset (num_or (opt_field limit filters) (defaultLimit config))
          (num_or (opt_field start filters) 0)
          (order_by (if str_or (opt_field sort_by filters) ''dateModified'' = ''dateModified''
                     then dateModified else dateAdded)
             (case opt_field direction filters of None \<Rightarrow> Desc | Some d \<Rightarrow> d)
             (remdups (filter (search_where db query filters) (db_items db)))))"
  by (simp add: LocalBackend_searchItems_def Let_def)

text \<open>Every item of a result is built from a row of the store that satisfies the \<open>WHERE\<close>
  clause.\<close>

lemma searchItems_rows:
  assumes "it \<in> set (items (LocalBackend_searchItems config db query filters))"
  shows "\<exists>row \<in> set (db_items db). search_where db query filters row \<and> it = load_item db row"
proof -
  from assms obtain row where
    row: "row \<in> set (sql_limit_offset (num_or (opt_field limit filters) (defaultLimit config))
             (num_or (opt_field start filters) 0)
             (order_by (if str_or (opt_field sort_by filters) ''dateModified'' = ''dateModified''
                        then dateModified else dateAdded)
                (case opt_field direction filters of None \<Rightarrow> Desc | Some d \<Rightarrow> d)
                (remdups (filter (search_where db query filters) (db_items db)))))"
    and it: "it = load_item db row"
    unfolding searchItems_items by auto
  from in_page [OF row] it show ?thesis by blast
qed

text \<open>On the local backend the tag filter is a conjunction: an item of the result carries
  every tag of the filter.\<close>

lemma LocalBackend_searchItems_tags_and:
  assumes "opt_field tags filters = Some T"
    and "it \<in> set (items (LocalBackend_searchItems config db query filters))"
    and "t \<in> set T"
  shows "item_carries_tag it t"
proof -
  from assms(2) obtain row where w: "search_where db query filters row" and it: "it = load_item db row"
    using searchItems_rows by blast
  from assms(3) have "length T > 0" by (cases T) auto
  with w assms(1) have "list_all (\<lambda>t. itemID row \<in> set (tag_item_ids db t)) T"
    by (simp add: search_where_def)
  with assms(3) have "itemID row \<in> set (tag_item_ids db t)"
    by (simp add: list_all_iff)
  then obtain ty where "JObj [(''tag'', JStr t), (''type'', JNum ty)] \<in> set (loadItemTags db (itemID row))"
    using tag_item_ids_loadItemTags by blast
  then have "list_ex (\<lambda>x. case x of JObj ob \<Rightarrow> obj_get ob ''tag'' = JStr t | _ \<Rightarrow> False)
               (loadItemTags db (itemID row))"
    unfolding list_ex_iff by (rule bexI [rotated]) (simp add: obj_get_def)
  then show ?thesis
    by (simp add: item_carries_tag_def it load_item_tags)
qed

text \<open>On the local backend a single tag that no item carries gives the empty result with
  the total 0.\<close>

lemma LocalBackend_searchItems_tag_without_items:
  assumes "opt_field tags filters = Some [t]" and "tag_item_ids db t = []"
  shows "items (LocalBackend_searchItems config db query filters) = []
         \<and> totalResults (LocalBackend_searchItems config db query filters) = Num 0"
proof -
  have "filter (search_where db query filters) (db_items db) = []"
    using assms by (simp add: search_where_def filter_empty_conv)
  moreover have "sql_limit_offset lim off (order_by col d []) = ([]::item_row list)" for lim off col d
    by (cases d) (simp_all add: sql_limit_offset_def order_by_def)
  ultimately show ?thesis
    by (simp add: LocalBackend_searchItems_def Let_def)
qed

text \<open>The pagination fields of the local backend: \<open>nextStart\<close> is the offset plus the number
  of items, and \<open>hasMore\<close> compares it with the total.\<close>

lemma LocalBackend_searchItems_pagination:
  "nextStart (LocalBackend_searchItems config db query filters)
     = num_or (opt_field start filters) 0
       + int (length (items (LocalBackend_searchItems config db query filters)))
   \<and> (\<exists>total. totalResults (LocalBackend_searchItems config db query filters) = Num total
        \<and> hasMore (LocalBackend_searchItems config db query filters)
            = (nextStart (LocalBackend_searchItems config db query filters) < total))"
  by (simp add: LocalBackend_searchItems_def Let_def)

text \<open>On the local backend \<open>getItem\<close> answers \<open>null\<close> for a key all of whose rows are marked
  deleted.\<close>

lemma LocalBackend_getItem_deleted:
  assumes "\<forall>i \<in> set (db_items db). item_key i = k \<longrightarrow> itemID i \<in> set (db_deletedItems db)"
  shows "LocalBackend_getItem config db k includeChildren = None"
proof -
  have "[i \<leftarrow> db_items db. item_key i = k \<and> itemID i \<notin> set (db_deletedItems db)] = []"
    using assms by (auto simp: filter_empty_conv)
  then show ?thesis by (simp add: LocalBackend_getItem_def first_row_def)
qed

text \<open>A walk over the sub-collections that returns at some call depth returns the same keys
  at every greater depth, and it only appends to the keys it started from.\<close>

lemma getSubcollections_deeper:
  "getSubcollections d db k acc = Some r \<Longrightarrow> getSubcollections (Suc d) db k acc = Some r"
  "sub_loop d db ks acc = Some r \<Longrightarrow> sub_loop (Suc d) db ks acc = Some r"
proof (induction d db k acc and d db ks acc arbitrary: r and r
    rule: getSubcollections_sub_loop.induct)
  case (4 depth db sub subs allKeys)
  then show ?case by (auto split: option.splits)
qed simp_all

lemma getSubcollections_appends:
  "getSubcollections d db k acc = Some r \<Longrightarrow> \<exists>ys. r = acc @ ys"
  "sub_loop d db ks acc = Some r \<Longrightarrow> \<exists>ys. r = acc @ ys"
proof (induction d db k acc and d db ks acc arbitrary: r and r
    rule: getSubcollections_sub_loop.induct)
  case (4 depth db sub subs allKeys)
  then show ?case by (fastforce split: option.splits)
qed auto

text \<open>Whenever the walk over the sub-collections returns, the recursive call of the local
  \<open>getCollectionItems\<close> returns what the plain call returns: the keys the walk collected are
  not used.\<close>

lemma LocalBackend_getCollectionItems_recursive_same:
  assumes "getSubcollections depth db k [k] = Some allKeys"
  shows "LocalBackend_getCollectionItems depth config db k True filters
         = LocalBackend_getCollectionItems depth config db k False filters"
  using assms by (simp add: LocalBackend_getCollectionItems_def Let_def)

lemma search_where_limit:
  "search_where db query (Some (f\<lparr>limit := x\<rparr>)) = search_where db query (Some f)"
  by (rule ext) (simp add: search_where_def opt_field_Some cong: if_cong split del: if_split)

lemma search_where_start:
  "search_where db query (Some (f\<lparr>start := x\<rparr>)) = search_where db query (Some f)"
  by (rule ext) (simp add: search_where_def opt_field_Some cong: if_cong split del: if_split)

lemma LocalBackend_searchItems_limit_zero:
  "LocalBackend_searchItems config db query (Some (f\<lparr>limit := Some 0\<rparr>))
     = LocalBackend_searchItems config db query (Some (f\<lparr>limit := None\<rparr>))"
  unfolding LocalBackend_searchItems_def
  by (simp add: opt_field_Some num_or_simps search_where_limit cong: if_cong split del: if_split)

lemma LocalBackend_searchItems_start_zero:
  "LocalBackend_searchItems config db query (Some (f\<lparr>start := Some 0\<rparr>))
     = LocalBackend_searchItems config db query (Some (f\<lparr>start := None\<rparr>))"
  unfolding LocalBackend_searchItems_def
  by (simp add: opt_field_Some num_or_simps search_where_start cong: if_cong split del: if_split)

lemma LocalBackend_searchItems_limit_default:
  "LocalBackend_searchItems config db query (Some (f\<lparr>limit := Some (defaultLimit config)\<rparr>))
     = LocalBackend_searchItems config db query (Some (f\<lparr>limit := None\<rparr>))"
  unfolding LocalBackend_searchItems_def
  by (simp add: opt_field_Some num_or_simps num_or_same search_where_limit
      cong: if_cong split del: if_split)

text \<open>The store of \<open>n\<close> articles: every row matches a search without filters, so a page holds
  as many items as the limit allows.\<close>

lemma big_library_where:
  "search_where (big_library n) None (Some (no_filters\<lparr>limit := Some l\<rparr>)) row
   = (itemTypeID row \<noteq> 3 \<and> itemTypeID row \<noteq> 4 \<and> itemTypeID row \<noteq> 5)"
  by (auto simp add: search_where_def big_library_def opt_field_def no_filters_def truthy_def
      type_ids_named_def)

lemma big_library_matching:
  "filter (search_where (big_library n) None (Some (no_filters\<lparr>limit := Some l\<rparr>)))
     (db_items (big_library n)) = db_items (big_library n)"
  unfolding filter_id_conv big_library_where by (simp add: big_library_def)

lemma big_library_distinct: "distinct (db_items (big_library n))"
  by (simp add: big_library_def distinct_map inj_on_def)

lemma big_library_length: "length (db_items (big_library n)) = n"
  by (simp add: big_library_def)

lemma big_library_page:
  assumes "0 < l"
  shows "length (items (LocalBackend_searchItems config (big_library n) None
                   (Some (no_filters\<lparr>limit := Some l\<rparr>)))) = min (nat l) n"
proof -
  have "length (items (LocalBackend_searchItems config (big_library n) None
                   (Some (no_filters\<lparr>limit := Some l\<rparr>))))
        = length (sql_limit_offset l 0 (order_by dateModified Desc (remdups (db_items (big_library n)))))"
    unfolding LocalBackend_searchItems_def Let_def big_library_matching
    using assms by (simp add: opt_field_def no_filters_def num_or_def str_or_def)
  also have "\<dots> = min (nat l) n"
    using assms
    by (simp add: sql_limit_offset_def length_order_by distinct_remdups_id [OF big_library_distinct]
        big_library_length min_def)
  finally show ?thesis .
qed

section \<open>Lemmas on the remote backend\<close>

text \<open>A response with status 404 makes \<open>request\<close> throw an error whose message includes \<open>404\<close>.\<close>

lemma request_404:
  assumes "status (svc endpoint) = 404"
  shows "\<exists>m. request svc endpoint = Inl (Error m) \<and> str_includes m ''404''"
proof -
  have "str_includes (''API request failed: '' @ (''404'' @ ('' '' @ statusText (svc endpoint)))) ''404''"
    by (rule str_includes_append) (rule str_includes_prefix)
  with assms show ?thesis
    by (simp add: request_def Let_def String_of_404 del: str_includes.simps)
qed

text \<open>A response with status 429 makes \<open>request\<close> throw the rate-limit error, whose message
  holds the \<open>Retry-After\<close> value (5 when the header is missing or empty).\<close>

lemma request_429:
  assumes "status (svc endpoint) = 429"
  shows "request svc endpoint
         = Inl (Error (''Rate limited. Retry after ''
                       @ str_or (headers_get (svc endpoint) ''Retry-After'') ''5'' @ '' seconds.''))"
  using assms by (simp add: request_def Let_def)

text \<open>A 404 answer to the item request makes the remote \<open>getItem\<close> return \<open>null\<close>.\<close>

lemma WebAPIBackend_getItem_404:
  assumes "status (svc \<lparr>path = ''/'' @ getLibraryPrefix config @ ''/items/'' @ k,
                        query_params = []\<rparr>) = 404"
  shows "WebAPIBackend_getItem config svc k includeChildren = Inr None"
proof -
  from request_404 [where svc = svc, OF assms] obtain m where
    "request svc \<lparr>path = ''/'' @ getLibraryPrefix config @ ''/items/'' @ k, query_params = []\<rparr>
       = Inl (Error m)"
    and "str_includes m ''404''" by blast
  then show ?thesis
    by (simp add: WebAPIBackend_getItem_def getItem_try_def del: str_includes.simps)
qed

text \<open>An error of the item request whose message does not include \<open>404\<close> is thrown on.\<close>

lemma WebAPIBackend_getItem_error:
  assumes "request svc \<lparr>path = ''/'' @ getLibraryPrefix config @ ''/items/'' @ k,
                         query_params = []\<rparr> = Inl e"
    and "\<not> str_includes (message e) ''404''"
  shows "WebAPIBackend_getItem config svc k includeChildren = Inl e"
  using assms by (simp add: WebAPIBackend_getItem_def getItem_try_def del: str_includes.simps)

text \<open>The remote backend reports the number of items of the page as \<open>nextStart\<close>.\<close>

lemma fetchItemsWithTotal_nextStart:
  "fetchItemsWithTotal svc endpoint = Inr r \<Longrightarrow> nextStart r = int (length (items r))"
  by (auto simp: fetchItemsWithTotal_def Let_def split: sum.splits)

lemma searchItems_endpoint_limit_zero:
  "searchItems_endpoint config query (Some (f\<lparr>limit := Some 0\<rparr>))
     = searchItems_endpoint config query (Some (f\<lparr>limit := None\<rparr>))"
  by (simp add: searchItems_endpoint_def base_params_def opt_field_Some num_or_simps
      cong: if_cong split del: if_split)

lemma searchItems_endpoint_start_zero:
  "searchItems_endpoint config query (Some (f\<lparr>start := Some 0\<rparr>))
     = searchItems_endpoint config query (Some (f\<lparr>start := None\<rparr>))"
  by (simp add: searchItems_endpoint_def base_params_def opt_field_Some num_or_simps
      cong: if_cong split del: if_split)

lemma searchItems_endpoint_limit_default:
  "searchItems_endpoint config query (Some (f\<lparr>limit := Some (defaultLimit config)\<rparr>))
     = searchItems_endpoint config query (Some (f\<lparr>limit := None\<rparr>))"
  by (simp add: searchItems_endpoint_def base_params_def opt_field_Some num_or_simps num_or_same
      cong: if_cong split del: if_split)

text \<open>The \<open>limit\<close> and \<open>start\<close> parameters of the request \<open>searchItems\<close> sends: the caller's
  number unless it is missing or 0, whatever \<open>maxLimit\<close> is.\<close>

lemma buildQueryString_Cons:
  "buildQueryString ((k, v) # ps)
   = (if v \<noteq> PUndefined \<and> v \<noteq> PStr [] then [(k, String_of_param v)] else [])
     @ buildQueryString ps"
  by (simp add: buildQueryString_def)

lemma base_params_limit_start:
  "map_of (buildQueryString (base_params config filters @ rest)) ''limit''
     = Some (String_of (num_or (opt_field limit filters) (defaultLimit config)))"
  "map_of (buildQueryString (base_params config filters @ rest)) ''start''
     = Some (String_of (num_or (opt_field start filters) 0))"
  by (simp_all add: base_params_def buildQueryString_Cons)

lemma searchItems_endpoint_params:
  "\<exists>rest. query_params (searchItems_endpoint config query filters)
           = buildQueryString (base_params config filters @ rest)"
proof (cases "truthy (opt_field collectionKey filters)")
  case True
  then show ?thesis
    unfolding searchItems_endpoint_def Let_def by (simp only: if_True Request.simps) blast
next
  case False
  then show ?thesis
    unfolding searchItems_endpoint_def Let_def
    by (simp only: if_False Request.simps append_assoc) blast
qed

lemma searchItems_endpoint_limit:
  "map_of (query_params (searchItems_endpoint config query filters)) ''limit''
   = Some (String_of (num_or (opt_field limit filters) (defaultLimit config)))"
  using searchItems_endpoint_params [of config query filters]
  by (auto simp only: base_params_limit_start)

lemma searchItems_endpoint_start:
  "map_of (query_params (searchItems_endpoint config query filters)) ''start''
   = Some (String_of (num_or (opt_field start filters) 0))"
  using searchItems_endpoint_params [of config query filters]
  by (auto simp only: base_params_limit_start)

section \<open>Lemmas on the cache\<close>

text \<open>Operations on another key leave the entry of a key as it is.\<close>

lemma Cache_other_key:
  assumes "k' \<noteq> k"
  shows "store (Cache_set now k' v c) k = store c k"
    and "store (snd (Cache_get now k' c)) k = store c k"
    and "store (snd (Cache_has now k' c)) k = store c k"
  using assms
  by (simp_all add: Cache_set_def Cache_get_def Cache_has_def split: option.splits prod.splits)

section \<open>The claims\<close>

text \<open>
  C1. \<open>getCollectionItems(c, recursive=true)\<close> is to include the items of every transitive
  sub-collection of \<open>c\<close>. In the example store \<open>COL2\<close> is a sub-collection of \<open>COL1\<close> and holds the
  book \<open>DEF456\<close>. The local backend walks the tree and collects both keys, and then searches
  \<open>COL1\<close> alone: the recursive result for \<open>COL1\<close> is the article \<open>ABC123\<close> only, the same as the
  plain result, and \<open>DEF456\<close> is missing.
\<close>

theorem LocalBackend_getCollectionItems_recursive_misses_subcollection:
  "getSubcollections 10 example_library ''COL1'' [''COL1''] = Some [''COL1'', ''COL2'']
   \<and> map_sum id item_keys
        (LocalBackend_getCollectionItems 10 example_config example_library ''COL2'' False None)
       = Inr [JStr ''DEF456'']
   \<and> map_sum id item_keys
        (LocalBackend_getCollectionItems 10 example_config example_library ''COL1'' True None)
       = Inr [JStr ''ABC123'']
   \<and> map_sum id item_keys
        (LocalBackend_getCollectionItems 10 example_config example_library ''COL1'' False None)
       = Inr [JStr ''ABC123'']"
  by code_simp

text \<open>
  C2. \<open>searchItems\<close> with the filter \<open>tags = T\<close> is to return only items that carry every tag
  of \<open>T\<close>, on both backends. The local backend does (lemma
  \<open>LocalBackend_searchItems_tags_and\<close>). The remote backend sends the tags as the single
  parameter \<open>tag=methodology || survey\<close>, which the service reads as a disjunction: with the
  service's answer to that request the result holds \<open>DEF456\<close>, which does not carry \<open>survey\<close>,
  while the local backend returns \<open>ABC123\<close> alone for the same filter.
\<close>

theorem WebAPIBackend_searchItems_tags_sent_as_disjunction:
  "query_params (searchItems_endpoint example_config None
       (Some (no_filters\<lparr>tags := Some [''methodology'', ''survey'']\<rparr>)))
     = [(''format'', ''json''), (''limit'', ''25''), (''start'', ''0''),
        (''sort'', ''dateModified''), (''direction'', ''desc''),
        (''tag'', ''methodology || survey'')]
   \<and> map_sum id
        (\<lambda>r. map (\<lambda>it. (obj_get it ''key'', item_carries_tag it ''methodology'',
                        item_carries_tag it ''survey'')) (items r))
        (WebAPIBackend_searchItems example_config example_service None
           (Some (no_filters\<lparr>tags := Some [''methodology'', ''survey'']\<rparr>)))
       = Inr [(JStr ''ABC123'', True, True), (JStr ''DEF456'', True, False)]
   \<and> item_keys (LocalBackend_searchItems example_config example_library None
        (Some (no_filters\<lparr>tags := Some [''methodology'', ''survey'']\<rparr>)))
       = [JStr ''ABC123'']"
  by code_simp

text \<open>
  C3. Every result is to satisfy \<open>nextStart = offset + items.length\<close>. The local backend does
  (lemma \<open>LocalBackend_searchItems_pagination\<close>). The remote backend sets \<open>nextStart\<close> to
  \<open>items.length\<close>: a search from \<open>start = 2\<close> that the service answers with two items of five
  gives \<open>nextStart = 2\<close>, not 4.
\<close>

theorem WebAPIBackend_searchItems_nextStart_without_offset:
  "map_of (query_params (searchItems_endpoint example_config None
       (Some (no_filters\<lparr>start := Some 2, limit := Some 2\<rparr>)))) ''start'' = Some ''2''
   \<and> map_sum id (\<lambda>r. (length (items r), totalResults r, hasMore r, nextStart r))
        (WebAPIBackend_searchItems example_config example_service None
           (Some (no_filters\<lparr>start := Some 2, limit := Some 2\<rparr>)))
       = Inr (2, Num 5, True, 2)"
  by code_simp

text \<open>
  C4. A limit above the configured maximum is to be clamped to it. No backend reads
  \<open>maxLimit\<close> (lemmas \<open>searchItems_items\<close> and \<open>searchItems_endpoint_limit\<close>): with \<open>maxLimit = 100\<close>
  and the limit 500 the local backend returns all 150 items of a store of 150 articles in
  one page, and the remote backend asks the service for \<open>limit=500\<close>.
\<close>

theorem searchItems_limit_above_maxLimit:
  "maxLimit example_config = 100
   \<and> length (items (LocalBackend_searchItems example_config (big_library 150) None
                (Some (no_filters\<lparr>limit := Some 500\<rparr>)))) = 150
   \<and> map_of (query_params (searchItems_endpoint example_config None
                (Some (no_filters\<lparr>limit := Some 500\<rparr>)))) ''limit'' = Some ''500''"
proof -
  have "maxLimit example_config = 100"
    by (simp add: example_config_def loadConfig_default_def)
  moreover have "length (items (LocalBackend_searchItems example_config (big_library 150) None
                (Some (no_filters\<lparr>limit := Some 500\<rparr>)))) = 150"
    by (simp add: big_library_page)
  moreover have "map_of (query_params (searchItems_endpoint example_config None
                (Some (no_filters\<lparr>limit := Some 500\<rparr>)))) ''limit'' = Some ''500''"
    by code_simp
  ultimately show ?thesis by blast
qed

text \<open>
  C5. \<open>getItem\<close> of a key whose item is in the trash is to return \<open>null\<close> on both backends.
  The local backend does (lemma \<open>LocalBackend_getItem_deleted\<close>); for the trashed item \<open>GHI789\<close>
  of the example store it returns \<open>null\<close>. The remote backend returns whatever item the service
  sends with status 200 and never reads its \<open>deleted\<close> marker: for the same item, served with
  \<open>deleted: 1\<close>, it returns the item.
\<close>

theorem getItem_trashed_item_differs_between_backends:
  "LocalBackend_getItem example_config example_library ''GHI789'' True = None
   \<and> map_sum id (map_option (\<lambda>item. (obj_get item ''key'', obj_get item ''deleted'')))
        (WebAPIBackend_getItem example_config example_service ''GHI789'' True)
       = Inr (Some (JStr ''GHI789'', JNum 1))"
  by code_simp

text \<open>
  C6. \<open>getBibliography\<close> of the local backend returns one fixed message for every list of keys
  and every style (also for no style), and does not throw.
\<close>

theorem LocalBackend_getBibliography_fixed_message:
  "LocalBackend_getBibliography keys style
   = Inr ''Bibliography generation requires Web API mode or citeproc-js integration.''"
  by (simp add: LocalBackend_getBibliography_def)

text \<open>
  C7. Cache round trip. After \<open>set(k, v)\<close> at time \<open>t\<close> the entry of \<open>k\<close> holds \<open>v\<close> and expires
  at \<open>t + ttl\<close>, whatever was stored before (every set refreshes the expiry). A \<open>get(k)\<close> at
  the same clock reading returns \<open>v\<close> (for a time-to-live that is not negative), and so does
  any \<open>get(k)\<close> up to and including the expiry time, leaving the cache as it is. A \<open>get(k)\<close>
  later than the expiry time returns \<open>undefined\<close> and removes the entry from the store.
\<close>

theorem Cache_round_trip:
  "store (Cache_set t k v c) k = Some \<lparr>entry_value = v, expires = t + ttl c\<rparr>
   \<and> (0 \<le> ttl c \<longrightarrow> fst (Cache_get t k (Cache_set t k v c)) = v)
   \<and> (\<forall>t'. t' \<le> t + ttl c \<longrightarrow>
          Cache_get t' k (Cache_set t k v c) = (v, Cache_set t k v c))
   \<and> (\<forall>t'. t + ttl c < t' \<longrightarrow>
          fst (Cache_get t' k (Cache_set t k v c)) = Undefined
          \<and> store (snd (Cache_get t' k (Cache_set t k v c))) k = None)"
  by (simp add: Cache_get_def Cache_set_def)

theorem Cache_round_trip_witness:
  "fst (Cache_get 5000 ''items:ABC123'' (Cache_set 5000 ''items:ABC123'' (Val (7::nat)) (Cache_new 300))) = Val 7
   \<and> Cache_get 305000 ''items:ABC123'' (Cache_set 5000 ''items:ABC123'' (Val (7::nat)) (Cache_new 300))
       = (Val 7, Cache_set 5000 ''items:ABC123'' (Val 7) (Cache_new 300))
   \<and> fst (Cache_get 305001 ''items:ABC123'' (Cache_set 5000 ''items:ABC123'' (Val (7::nat)) (Cache_new 300))) = Undefined
   \<and> store (snd (Cache_get 305001 ''items:ABC123'' (Cache_set 5000 ''items:ABC123'' (Val (7::nat)) (Cache_new 300))))
        ''items:ABC123'' = None"
  using Cache_round_trip [of 5000 "''items:ABC123''" "Val (7::nat)" "Cache_new 300"]
  by (simp add: Cache_new_def)

text \<open>
  C8. A 404 answer to the item request makes the remote \<open>getItem\<close> return \<open>null\<close> (lemma
  \<open>WebAPIBackend_getItem_404\<close>), and every other status outside 200..299 is to be thrown on as
  an error. \<open>getItem\<close> decides by looking for the text \<open>404\<close> in the error's message, and the
  message of the rate-limit error holds the \<open>Retry-After\<close> value: a 429 answer with
  \<open>Retry-After: 404\<close> makes \<open>getItem\<close> return \<open>null\<close>. A 500 answer is thrown on.
\<close>

theorem WebAPIBackend_getItem_429_returns_null:
  "status (example_service \<lparr>path = ''/users/12345/items/BUSY01'', query_params = []\<rparr>) = 429
   \<and> request example_service \<lparr>path = ''/users/12345/items/BUSY01'', query_params = []\<rparr>
       = Inl (Error ''Rate limited. Retry after 404 seconds.'')
   \<and> WebAPIBackend_getItem example_config example_service ''BUSY01'' True = Inr None
   \<and> WebAPIBackend_getItem example_config example_service ''DOWN01'' True
       = Inl (Error ''API request failed: 500 Internal Server Error'')"
  by code_simp

text \<open>
  C9. \<open>has(k)\<close> is \<open>get(k) !== undefined\<close>: it answers true exactly when \<open>get(k)\<close> returns a
  value other than \<open>undefined\<close>, and it leaves the cache in the state \<open>get(k)\<close> leaves it in. So
  \<open>has\<close> on a key whose entry has expired answers false and removes the entry.
\<close>

theorem Cache_has_is_get:
  "fst (Cache_has now k c) = (fst (Cache_get now k c) \<noteq> Undefined)
   \<and> snd (Cache_has now k c) = snd (Cache_get now k c)
   \<and> (\<forall>entry. store c k = Some entry \<and> expires entry < now \<longrightarrow>
          fst (Cache_has now k c) = False \<and> store (snd (Cache_has now k c)) k = None)"
  by (simp add: Cache_has_def Cache_get_def split: prod.splits option.splits)

theorem Cache_has_is_get_witness:
  "fst (Cache_has 400000 ''k'' (Cache_set 0 ''k'' (Val True) (Cache_new 300))) = False
   \<and> store (snd (Cache_has 400000 ''k'' (Cache_set 0 ''k'' (Val True) (Cache_new 300)))) ''k'' = None
   \<and> fst (Cache_has 1000 ''k'' (Cache_set 0 ''k'' (Val True) (Cache_new 300))) = True"
  using Cache_has_is_get [of 400000 "''k''" "Cache_set 0 ''k'' (Val True) (Cache_new 300)"]
    Cache_has_is_get [of 1000 "''k''" "Cache_set 0 ''k'' (Val True) (Cache_new 300)"]
  by (simp add: Cache_new_def Cache_set_def Cache_get_def)

text \<open>
  C10. On both backends \<open>searchItems\<close> with \<open>limit: 0\<close> returns what it returns with no limit
  and what it returns with the configured default as the limit, and \<open>searchItems\<close> with
  \<open>start: 0\<close> returns what it returns with no start.
\<close>

theorem searchItems_zero_limit_and_start:
  "LocalBackend_searchItems config db query (Some (f\<lparr>limit := Some 0\<rparr>))
     = LocalBackend_searchItems config db query (Some (f\<lparr>limit := None\<rparr>))
   \<and> LocalBackend_searchItems config db query (Some (f\<lparr>limit := Some 0\<rparr>))
     = LocalBackend_searchItems config db query (Some (f\<lparr>limit := Some (defaultLimit config)\<rparr>))
   \<and> LocalBackend_searchItems config db query (Some (f\<lparr>start := Some 0\<rparr>))
     = LocalBackend_searchItems config db query (Some (f\<lparr>start := None\<rparr>))
   \<and> WebAPIBackend_searchItems config svc query (Some (f\<lparr>limit := Some 0\<rparr>))
     = WebAPIBackend_searchItems config svc query (Some (f\<lparr>limit := None\<rparr>))
   \<and> WebAPIBackend_searchItems config svc query (Some (f\<lparr>limit := Some 0\<rparr>))
     = WebAPIBackend_searchItems config svc query (Some (f\<lparr>limit := Some (defaultLimit config)\<rparr>))
   \<and> WebAPIBackend_searchItems config svc query (Some (f\<lparr>start := Some 0\<rparr>))
     = WebAPIBackend_searchItems config svc query (Some (f\<lparr>start := None\<rparr>))"
  by (simp only: LocalBackend_searchItems_limit_zero LocalBackend_searchItems_start_zero
      LocalBackend_searchItems_limit_default WebAPIBackend_searchItems_def
      searchItems_endpoint_limit_zero searchItems_endpoint_start_zero
      searchItems_endpoint_limit_default simp_thms)

theorem searchItems_zero_limit_and_start_witness:
  "item_keys (LocalBackend_searchItems example_config example_library None
       (Some (no_filters\<lparr>limit := Some 0\<rparr>)))
     = [JStr ''DEF456'', JStr ''ABC123'']
   \<and> map_of (query_params (searchItems_endpoint example_config None
       (Some (no_filters\<lparr>limit := Some 0\<rparr>)))) ''limit'' = Some ''25''"
proof -
  have "LocalBackend_searchItems example_config example_library None
          (Some (no_filters\<lparr>limit := Some 0\<rparr>))
        = LocalBackend_searchItems example_config example_library None
          (Some (no_filters\<lparr>limit := None\<rparr>))"
    using searchItems_zero_limit_and_start
      [of example_config example_library None no_filters example_service]
    by blast
  moreover have "item_keys (LocalBackend_searchItems example_config example_library None
          (Some (no_filters\<lparr>limit := None\<rparr>))) = [JStr ''DEF456'', JStr ''ABC123'']"
    by code_simp
  moreover have "map_of (query_params (searchItems_endpoint example_config None
       (Some (no_filters\<lparr>limit := Some 0\<rparr>)))) ''limit'' = Some ''25''"
    by code_simp
  ultimately show ?thesis by simp
qed

end
